theory Spec2Isabelle
  imports Complex_Main
begin

section \<open>PartsTrack: the shared dialog base class (src/dialogs/base\_dialog.py)\<close>

text \<open>
  \<open>BaseDialog\<close> configures a table widget, enables two buttons and fills the order table of
  a part from a query. Everything it does is a call into PyQt6, \<open>lbk_library\<close> or the
  \<open>elements\<close> package, none of which is under \<open>src/\<close>. The embedding therefore has
  three layers:
  \<^item> the data the calls carry and the widget attributes they set (records);
  \<^item> the calls themselves: each one is logged, and a \<open>library\<close> parameter says which
    calls raise, so that a raising library is a branch of the model;
  \<^item> the methods of \<open>BaseDialog\<close>, written call by call as the source has them.
\<close>

subsection \<open>Data carried by the records of the parts file\<close>

text \<open>The properties of an order line that the getters used in the source return.\<close>

record order_line =
  order_number :: string
  line :: int
  part_number :: string
  cost_each :: rat
  quantity :: int
  remarks :: string

text \<open>The properties of an order that the getters used in the source return.\<close>

record order_rec =
  date :: string
  source :: string

text \<open>
  The parts file (\<open>lbk_library.DataFile\<close>) is only ever handed to the constructors
  \<open>OrderLineSet(parts_file, column, value, order_by)\<close> and \<open>Order(parts_file, order_number)\<close>.
  What they read from it is a parameter of the model: the rows the query selects, in the
  order the query returns them, and the order stored under an order number.
\<close>

record parts_file =
  select_order_lines :: "string \<Rightarrow> string \<Rightarrow> string \<Rightarrow> order_line list"
  select_order :: "string \<Rightarrow> order_rec"

text \<open>An \<open>OrderLineSet\<close>: the list of elements it holds (\<open>set_property_set\<close> replaces it).\<close>

record order_line_set =
  property_set :: "order_line list"

subsection \<open>Widgets\<close>

datatype alignment_flag = AlignLeft | AlignRight | AlignHCenter | AlignVCenter

datatype resize_mode = Interactive | Fixed | Stretch | ResizeToContents

text \<open>
  A \<open>QTableWidgetItem\<close>: its text and its alignment flags (no flag until
  \<open>setTextAlignment\<close> is called). The flag union \<open>a | b\<close> of the source is set union.
\<close>

record item =
  text_of :: string
  text_alignment :: "alignment_flag set"

text \<open>
  A \<open>QTableWidget\<close>, as the attributes its interface sets. Each setter of the toolkit is
  taken to set its own attribute and nothing else; what the toolkit derives from them
  internally is outside the model.
\<close>

record qtable =
  column_count :: nat
  horizontal_header_labels :: "string list"
  column_width :: "nat \<rightharpoonup> int"
  section_resize_mode :: "int \<rightharpoonup> resize_mode"
  row_count :: nat
  items :: "nat \<times> nat \<rightharpoonup> item"
  selected_cells :: "(nat \<times> nat) list"

record button =
  enabled :: bool

text \<open>The attributes of \<open>self.form\<close> that \<open>BaseDialog\<close> reads.\<close>

record ui_form =
  save_new_button :: button
  save_done_button :: button
  order_table :: qtable

text \<open>
  A \<open>BaseDialog\<close>: the data file held by the inherited \<open>Dialog\<close>, and \<open>self.form\<close>, which
  \<open>__init__\<close> sets to \<open>None\<close> and a concrete dialog replaces by its form.
\<close>

record dialog =
  datafile :: parts_file
  form :: "ui_form option"

subsection \<open>Exceptions, library calls and their log\<close>

datatype exn = AttributeError string | LibraryError string

datatype button_name = Save_new_button | Save_done_button

text \<open>The calls the source makes into PyQt6, \<open>lbk_library\<close> and \<open>elements\<close>, with their arguments.\<close>

datatype lib_call =
    Dialog_get_datafile
  | QTableWidget_setColumnCount nat
  | QTableWidget_setHorizontalHeaderLabels "string list"
  | QTableWidget_setColumnWidth nat int
  | QTableWidget_horizontalHeader
  | QHeaderView_setSectionResizeMode int resize_mode
  | QPushButton_setEnabled button_name bool
  | OrderLineSet_init string string string
  | ElementSet_set_property_set "order_line list"
  | ElementSet_get_number_elements
  | ElementSet_iter
  | QTableWidget_setRowCount nat
  | Order_init string
  | Order_get_date order_rec
  | Order_get_source order_rec
  | OrderLine_get_order_number order_line
  | OrderLine_get_line order_line
  | OrderLine_get_part_number order_line
  | OrderLine_get_cost_each order_line
  | OrderLine_get_quantity order_line
  | OrderLine_get_remarks order_line
  | QTableWidgetItem_init string
  | QTableWidgetItem_setTextAlignment item "alignment_flag set"
  | QTableWidget_setItem nat nat item

text \<open>
  The libraries are a parameter: \<open>lib c = Some e\<close> says that the call \<open>c\<close> raises \<open>e\<close>.
  A computation yields the exception or the value, and the calls it made, in order.
\<close>

type_synonym library = "lib_call \<Rightarrow> exn option"

type_synonym 'a io = "(exn + 'a) \<times> lib_call list"

definition no_raise :: library where
  "no_raise = (\<lambda>c. None)"

definition result :: "'a io \<Rightarrow> exn + 'a" where
  "result m = fst m"

definition trace :: "'a io \<Rightarrow> lib_call list" where
  "trace m = snd m"

definition return_io :: "'a \<Rightarrow> 'a io" where
  "return_io x = (Inr x, [])"

definition raise_io :: "exn \<Rightarrow> 'a io" where
  "raise_io e = (Inl e, [])"

text \<open>A library call: logged, then it raises or returns the value given.\<close>

definition invoke :: "library \<Rightarrow> lib_call \<Rightarrow> 'a \<Rightarrow> 'a io" where
  "invoke lib c v = (case lib c of Some e \<Rightarrow> (Inl e, [c]) | None \<Rightarrow> (Inr v, [c]))"

text \<open>Sequencing: an exception ends the computation; nothing catches it.\<close>

definition bind_io :: "'a io \<Rightarrow> ('a \<Rightarrow> 'b io) \<Rightarrow> 'b io" where
  "bind_io m f =
     (case result m of
        Inl e \<Rightarrow> (Inl e, trace m)
      | Inr x \<Rightarrow> (result (f x), trace m @ trace (f x)))"

text \<open>A \<open>for\<close> loop over a list, threading the variables the body assigns.\<close>

fun for_each :: "'a list \<Rightarrow> ('a \<Rightarrow> 's \<Rightarrow> 's io) \<Rightarrow> 's \<Rightarrow> 's io" where
  "for_each [] body s = return_io s"
| "for_each (x # xs) body s = bind_io (body x s) (for_each xs body)"

subsection \<open>The library interface used by the source\<close>

text \<open>\<open>Dialog.get_datafile()\<close>, inherited from \<open>lbk_library.gui.Dialog\<close>.\<close>

definition get_datafile :: "library \<Rightarrow> dialog \<Rightarrow> parts_file io" where
  "get_datafile lib dlg = invoke lib Dialog_get_datafile (datafile dlg)"

definition setColumnCount :: "library \<Rightarrow> nat \<Rightarrow> qtable \<Rightarrow> qtable io" where
  "setColumnCount lib n table =
     invoke lib (QTableWidget_setColumnCount n) (table\<lparr>column_count := n\<rparr>)"

definition setHorizontalHeaderLabels :: "library \<Rightarrow> string list \<Rightarrow> qtable \<Rightarrow> qtable io" where
  "setHorizontalHeaderLabels lib labels table =
     invoke lib (QTableWidget_setHorizontalHeaderLabels labels)
       (table\<lparr>horizontal_header_labels := labels\<rparr>)"

definition setColumnWidth :: "library \<Rightarrow> nat \<Rightarrow> int \<Rightarrow> qtable \<Rightarrow> qtable io" where
  "setColumnWidth lib i w table =
     invoke lib (QTableWidget_setColumnWidth i w)
       (table\<lparr>column_width := (column_width table)(i \<mapsto> w)\<rparr>)"

definition horizontalHeader :: "library \<Rightarrow> qtable \<Rightarrow> unit io" where
  "horizontalHeader lib table = invoke lib QTableWidget_horizontalHeader ()"

definition setSectionResizeMode :: "library \<Rightarrow> int \<Rightarrow> resize_mode \<Rightarrow> qtable \<Rightarrow> qtable io" where
  "setSectionResizeMode lib c mode table =
     invoke lib (QHeaderView_setSectionResizeMode c mode)
       (table\<lparr>section_resize_mode := (section_resize_mode table)(c \<mapsto> mode)\<rparr>)"

definition setRowCount :: "library \<Rightarrow> nat \<Rightarrow> qtable \<Rightarrow> qtable io" where
  "setRowCount lib n table =
     invoke lib (QTableWidget_setRowCount n) (table\<lparr>row_count := n\<rparr>)"

definition setItem :: "library \<Rightarrow> nat \<Rightarrow> nat \<Rightarrow> item \<Rightarrow> qtable \<Rightarrow> qtable io" where
  "setItem lib r c entry table =
     invoke lib (QTableWidget_setItem r c entry)
       (table\<lparr>items := (items table)((r, c) \<mapsto> entry)\<rparr>)"

definition QTableWidgetItem :: "library \<Rightarrow> string \<Rightarrow> item io" where
  "QTableWidgetItem lib s =
     invoke lib (QTableWidgetItem_init s) \<lparr>text_of = s, text_alignment = {}\<rparr>"

definition setTextAlignment :: "library \<Rightarrow> alignment_flag set \<Rightarrow> item \<Rightarrow> item io" where
  "setTextAlignment lib flags entry =
     invoke lib (QTableWidgetItem_setTextAlignment entry flags)
       (entry\<lparr>text_alignment := flags\<rparr>)"

definition setEnabled :: "library \<Rightarrow> button_name \<Rightarrow> bool \<Rightarrow> button \<Rightarrow> button io" where
  "setEnabled lib name enable b =
     invoke lib (QPushButton_setEnabled name enable) (b\<lparr>enabled := enable\<rparr>)"

definition OrderLineSet ::
  "library \<Rightarrow> parts_file \<Rightarrow> string \<Rightarrow> string \<Rightarrow> string \<Rightarrow> order_line_set io" where
  "OrderLineSet lib pf where_column where_value order_by =
     invoke lib (OrderLineSet_init where_column where_value order_by)
       \<lparr>property_set = select_order_lines pf where_column where_value order_by\<rparr>"

definition set_property_set ::
  "library \<Rightarrow> order_line list \<Rightarrow> order_line_set \<Rightarrow> order_line_set io" where
  "set_property_set lib elements s =
     invoke lib (ElementSet_set_property_set elements) (s\<lparr>property_set := elements\<rparr>)"

definition get_number_elements :: "library \<Rightarrow> order_line_set \<Rightarrow> nat io" where
  "get_number_elements lib s = invoke lib ElementSet_get_number_elements (length (property_set s))"

text \<open>Iterating over an element set yields its elements in their stored order.\<close>

definition iter_elements :: "library \<Rightarrow> order_line_set \<Rightarrow> order_line list io" where
  "iter_elements lib s = invoke lib ElementSet_iter (property_set s)"

definition Order :: "library \<Rightarrow> parts_file \<Rightarrow> string \<Rightarrow> order_rec io" where
  "Order lib pf number = invoke lib (Order_init number) (select_order pf number)"

definition get_date :: "library \<Rightarrow> order_rec \<Rightarrow> string io" where
  "get_date lib ordr = invoke lib (Order_get_date ordr) (date ordr)"

definition get_source :: "library \<Rightarrow> order_rec \<Rightarrow> string io" where
  "get_source lib ordr = invoke lib (Order_get_source ordr) (source ordr)"

definition get_order_number :: "library \<Rightarrow> order_line \<Rightarrow> string io" where
  "get_order_number lib ol = invoke lib (OrderLine_get_order_number ol) (order_number ol)"

definition get_line :: "library \<Rightarrow> order_line \<Rightarrow> int io" where
  "get_line lib ol = invoke lib (OrderLine_get_line ol) (line ol)"

definition get_part_number :: "library \<Rightarrow> order_line \<Rightarrow> string io" where
  "get_part_number lib ol = invoke lib (OrderLine_get_part_number ol) (part_number ol)"

definition get_cost_each :: "library \<Rightarrow> order_line \<Rightarrow> rat io" where
  "get_cost_each lib ol = invoke lib (OrderLine_get_cost_each ol) (cost_each ol)"

definition get_quantity :: "library \<Rightarrow> order_line \<Rightarrow> int io" where
  "get_quantity lib ol = invoke lib (OrderLine_get_quantity ol) (quantity ol)"

definition get_remarks :: "library \<Rightarrow> order_line \<Rightarrow> string io" where
  "get_remarks lib ol = invoke lib (OrderLine_get_remarks ol) (remarks ol)"

subsection \<open>Python's \<open>str\<close> on an integer and \<open>format(x, ".2f")\<close>\<close>

definition digit_char :: "nat \<Rightarrow> char" where
  "digit_char d = ''0123456789'' ! d"

fun str_nat :: "nat \<Rightarrow> string" where
  "str_nat n = (if n < 10 then [digit_char n] else str_nat (n div 10) @ [digit_char (n mod 10)])"

declare str_nat.simps [simp del]

definition str_int :: "int \<Rightarrow> string" where
  "str_int i = (if i < 0 then CHR ''-'' # str_nat (nat (- i)) else str_nat (nat i))"

text \<open>
  \<open>float(x)\<close> of the cost: the getter's value is taken as the finite number it denotes,
  as an exact rational (every finite binary float is one).
\<close>

definition py_float :: "rat \<Rightarrow> rat" where
  "py_float x = x"

text \<open>Rounding to the nearest integer, ties to the even one, as the formatting does.\<close>

definition round_half_even :: "rat \<Rightarrow> int" where
  "round_half_even x =
     (let f = \<lfloor>x\<rfloor>; d = x - of_int f
      in if d < 1 / 2 then f else if 1 / 2 < d then f + 1 else if even f then f else f + 1)"

text \<open>\<open>format(x, ".2f")\<close>: sign, integer digits, a point and two digits of the hundredths.\<close>

definition format_2f :: "rat \<Rightarrow> string" where
  "format_2f x =
     (let h = nat (round_half_even (\<bar>x\<bar> * 100))
      in (if x < 0 then ''-'' else []) @ str_nat (h div 100) @ ''.'' @
         [digit_char (h mod 100 div 10), digit_char (h mod 10)])"

subsection \<open>\<open>BaseDialog\<close>\<close>

definition PART_ORDER_COL_NAMES :: "string list" where
  "PART_ORDER_COL_NAMES =
     [''Order'', ''Date'', ''Source'', ''Line'', ''Part Number'', ''Cost Each'', ''Quantity'',
      ''Remarks'']"

definition PART_ORDER_COL_WIDTHS :: "int list" where
  "PART_ORDER_COL_WIDTHS = [60, 100, 60, 40, 120, 70, 100, 1]"

text \<open>\<open>get_parts_file\<close> (line 61): \<open>return self.get_datafile()\<close>.\<close>

definition get_parts_file :: "library \<Rightarrow> dialog \<Rightarrow> parts_file io" where
  "get_parts_file lib dlg = get_datafile lib dlg"

text \<open>
  \<open>set_table_header\<close> (line 65). \<open>col_widths[i]\<close> is read for \<open>i\<close> in
  \<open>range(0, len(col_widths))\<close> only, so it never raises. \<open>stretch_column\<close> is an optional
  Python int.
\<close>

definition set_table_header ::
  "library \<Rightarrow> qtable \<Rightarrow> string list \<Rightarrow> int list \<Rightarrow> int option \<Rightarrow> qtable io" where
  "set_table_header lib table col_names col_widths stretch_column =
     bind_io (setColumnCount lib (length col_names) table) (\<lambda>table.
     bind_io (setHorizontalHeaderLabels lib col_names table) (\<lambda>table.
     bind_io (for_each [0..<length col_widths]
                (\<lambda>i table. setColumnWidth lib i (col_widths ! i) table) table) (\<lambda>table.
     case stretch_column of
       None \<Rightarrow> return_io table
     | Some c \<Rightarrow>
         bind_io (horizontalHeader lib table) (\<lambda>header.
         setSectionResizeMode lib c Stretch table))))"

text \<open>Reading an attribute of \<open>self.form\<close>: an \<open>AttributeError\<close> while it is \<open>None\<close>.\<close>

definition form_attr :: "dialog \<Rightarrow> string \<Rightarrow> ui_form io" where
  "form_attr dlg name =
     (case form dlg of
        None \<Rightarrow> raise_io (AttributeError name)
      | Some f \<Rightarrow> return_io f)"

text \<open>\<open>save_buttons_enable\<close> (line 91).\<close>

definition save_buttons_enable :: "library \<Rightarrow> dialog \<Rightarrow> bool \<Rightarrow> dialog io" where
  "save_buttons_enable lib dlg enable =
     bind_io (form_attr dlg ''save_new_button'') (\<lambda>f.
     bind_io (setEnabled lib Save_new_button enable (save_new_button f)) (\<lambda>b.
     let f = f\<lparr>save_new_button := b\<rparr> in
     bind_io (setEnabled lib Save_done_button enable (save_done_button f)) (\<lambda>b.
     let f = f\<lparr>save_done_button := b\<rparr> in
     return_io (dlg\<lparr>form := Some f\<rparr>))))"

text \<open>
  The body of the loop of \<open>fill_order_table_fields\<close> (lines 118 to 153), for one order line;
  the loop variables are \<open>row\<close> and the table.
\<close>

definition fill_row ::
  "library \<Rightarrow> dialog \<Rightarrow> order_line \<Rightarrow> nat \<times> qtable \<Rightarrow> (nat \<times> qtable) io" where
  "fill_row lib dlg order_line = (\<lambda>(row, table).
     bind_io (get_parts_file lib dlg) (\<lambda>pf.
     bind_io (get_order_number lib order_line) (\<lambda>number.
     bind_io (Order lib pf number) (\<lambda>ordr.
     bind_io (get_order_number lib order_line) (\<lambda>number.
     bind_io (QTableWidgetItem lib number) (\<lambda>entry.
     bind_io (setTextAlignment lib ({AlignHCenter} \<union> {AlignVCenter}) entry) (\<lambda>entry.
     bind_io (setItem lib row 0 entry table) (\<lambda>table.

     bind_io (get_date lib ordr) (\<lambda>d.
     bind_io (QTableWidgetItem lib d) (\<lambda>entry.
     bind_io (setTextAlignment lib ({AlignHCenter} \<union> {AlignVCenter}) entry) (\<lambda>entry.
     bind_io (setItem lib row 1 entry table) (\<lambda>table.

     bind_io (get_source lib ordr) (\<lambda>s.
     bind_io (QTableWidgetItem lib s) (\<lambda>entry.
     bind_io (setItem lib row 2 entry table) (\<lambda>table.
     bind_io (get_line lib order_line) (\<lambda>l.
     bind_io (QTableWidgetItem lib (str_int l)) (\<lambda>entry.
     bind_io (setTextAlignment lib ({AlignHCenter} \<union> {AlignVCenter}) entry) (\<lambda>entry.
     bind_io (setItem lib row 3 entry table) (\<lambda>table.

     bind_io (get_part_number lib order_line) (\<lambda>p.
     bind_io (QTableWidgetItem lib p) (\<lambda>entry.
     bind_io (setItem lib row 4 entry table) (\<lambda>table.

     bind_io (get_cost_each lib order_line) (\<lambda>c.
     bind_io (QTableWidgetItem lib (format_2f (py_float c))) (\<lambda>entry.
     bind_io (setTextAlignment lib ({AlignRight} \<union> {AlignVCenter}) entry) (\<lambda>entry.
     bind_io (setItem lib row 5 entry table) (\<lambda>table.
     bind_io (get_quantity lib order_line) (\<lambda>q.
     bind_io (QTableWidgetItem lib (str_int q)) (\<lambda>entry.
     bind_io (setTextAlignment lib ({AlignHCenter} \<union> {AlignVCenter}) entry) (\<lambda>entry.
     bind_io (setItem lib row 6 entry table) (\<lambda>table.

     bind_io (get_remarks lib order_line) (\<lambda>r.
     bind_io (QTableWidgetItem lib r) (\<lambda>entry.
     bind_io (setItem lib row 7 entry table) (\<lambda>table.
     return_io (row + 1, table))))))))))))))))))))))))))))))))))"

text \<open>
  \<open>fill_order_table_fields\<close> (line 102). \<open>not part_number\<close> holds of the empty string;
  \<open>self.form\<close> is read after the query has been built.
\<close>

definition fill_order_table_fields :: "library \<Rightarrow> dialog \<Rightarrow> string \<Rightarrow> dialog io" where
  "fill_order_table_fields lib dlg part_no =
     bind_io (get_parts_file lib dlg) (\<lambda>pf.
     bind_io (OrderLineSet lib pf ''part_number'' part_no ''order_number'') (\<lambda>order_lines.
     bind_io (if part_no = [] then set_property_set lib [] order_lines
              else return_io order_lines) (\<lambda>order_lines.
     bind_io (form_attr dlg ''order_table'') (\<lambda>f.
     let table = order_table f in
     bind_io (get_number_elements lib order_lines) (\<lambda>n.
     bind_io (setRowCount lib n table) (\<lambda>table.
     let row = 0 in
     bind_io (iter_elements lib order_lines) (\<lambda>elements.
     bind_io (for_each elements (fill_row lib dlg) (row, table)) (\<lambda>(row, table).
     return_io (dlg\<lparr>form := Some (f\<lparr>order_table := table\<rparr>)\<rparr>)))))))))"

subsection \<open>What the claims speak about\<close>







text \<open>
  Exceptions propagate through a computation: every call but the last one made returned;
  when the computation raises \<open>e\<close>, either the last call made raised exactly \<open>e\<close>, or no
  call raised and \<open>e\<close> is one of the computation's own exceptions (\<open>own\<close>); when it
  returns, no call raised.
\<close>

definition propagates :: "library \<Rightarrow> (exn \<Rightarrow> bool) \<Rightarrow> 'a io \<Rightarrow> bool" where
  "propagates lib own m \<longleftrightarrow>
     (\<forall>c \<in> set (butlast (trace m)). lib c = None) \<and>
     (case result m of
        Inl e \<Rightarrow>
          (trace m \<noteq> [] \<and> lib (last (trace m)) = Some e) \<or>
          (own e \<and> (\<forall>c \<in> set (trace m). lib c = None))
      | Inr x \<Rightarrow> \<forall>c \<in> set (trace m). lib c = None)"

text \<open>The \<open>AttributeError\<close> of reading \<open>self.form\<close> while it is \<open>None\<close>.\<close>

definition form_missing :: "dialog \<Rightarrow> exn \<Rightarrow> bool" where
  "form_missing dlg e \<longleftrightarrow> form dlg = None \<and> (\<exists>name. e = AttributeError name)"

subsection \<open>Example data\<close>

text \<open>
  A parts file with two order lines for the part \<open>P1\<close> and one order line whose part number
  is empty, a table before and after use, a dialog with its form, and a library in which
  the construction of the order \<open>21-002\<close> raises.
\<close>

definition sample_line_1 :: order_line where
  "sample_line_1 = \<lparr>order_number = ''21-001'', line = 1, part_number = ''P1'',
     cost_each = 5 / 2, quantity = 3, remarks = ''rush''\<rparr>"

definition sample_line_2 :: order_line where
  "sample_line_2 = \<lparr>order_number = ''21-002'', line = 12, part_number = ''P1'',
     cost_each = 1 / 8, quantity = 10, remarks = []\<rparr>"

definition unassigned_line :: order_line where
  "unassigned_line = \<lparr>order_number = ''21-003'', line = 1, part_number = [],
     cost_each = 0, quantity = 1, remarks = []\<rparr>"

definition sample_file :: parts_file where
  "sample_file =
     \<lparr>select_order_lines = (\<lambda>column v order_by.
        if column = ''part_number'' \<and> v = ''P1'' then [sample_line_1, sample_line_2]
        else if column = ''part_number'' \<and> v = [] then [unassigned_line]
        else []),
      select_order = (\<lambda>number.
        if number = ''21-001'' then \<lparr>date = ''2021-01-05'', source = ''Moss''\<rparr>
        else \<lparr>date = ''2021-02-10'', source = ''VB''\<rparr>)\<rparr>"

definition blank_table :: qtable where
  "blank_table =
     \<lparr>column_count = 0, horizontal_header_labels = [], column_width = Map.empty,
      section_resize_mode = Map.empty, row_count = 0, items = Map.empty, selected_cells = []\<rparr>"


definition sample_form :: ui_form where
  "sample_form =
     \<lparr>save_new_button = \<lparr>enabled = False\<rparr>, save_done_button = \<lparr>enabled = True\<rparr>,
      order_table = blank_table\<rparr>"

definition sample_dialog :: dialog where
  "sample_dialog = \<lparr>datafile = sample_file, form = Some sample_form\<rparr>"


definition locked_library :: library where
  "locked_library = (\<lambda>c.
     if c = Order_init ''21-002'' then Some (LibraryError ''database is locked'') else None)"

section \<open>Computations\<close>

lemma result_return_io [simp]: "result (return_io x) = Inr x"
  by (simp add: result_def return_io_def)

lemma trace_return_io [simp]: "trace (return_io x) = []"
  by (simp add: trace_def return_io_def)

lemma result_raise_io [simp]: "result (raise_io e) = Inl e"
  by (simp add: result_def raise_io_def)

lemma trace_raise_io [simp]: "trace (raise_io e) = []"
  by (simp add: trace_def raise_io_def)

lemma result_invoke: "result (invoke lib c v) = (case lib c of Some e \<Rightarrow> Inl e | None \<Rightarrow> Inr v)"
  by (simp add: result_def invoke_def split: option.splits)

lemma trace_invoke [simp]: "trace (invoke lib c v) = [c]"
  by (simp add: trace_def invoke_def split: option.splits)

lemma result_bind_io:
  "result (bind_io m f) = (case result m of Inl e \<Rightarrow> Inl e | Inr x \<Rightarrow> result (f x))"
  by (simp add: bind_io_def result_def split: sum.splits)

lemma trace_bind_io:
  "trace (bind_io m f) = (case result m of Inl e \<Rightarrow> trace m | Inr x \<Rightarrow> trace m @ trace (f x))"
  by (simp add: bind_io_def trace_def split: sum.splits)

lemma result_invoke_Inr [simp]: "result (invoke lib c v) = Inr y \<longleftrightarrow> lib c = None \<and> y = v"
  by (auto simp: result_invoke split: option.splits)

lemma result_invoke_no_raise [simp]: "result (invoke no_raise c v) = Inr v"
  by (simp add: no_raise_def)

lemma result_bind_io_Inr:
  "result (bind_io m f) = Inr y \<longleftrightarrow> (\<exists>x. result m = Inr x \<and> result (f x) = Inr y)"
  by (auto simp: result_bind_io split: sum.splits)

lemmas library_defs =
  get_parts_file_def get_datafile_def get_order_number_def Order_def QTableWidgetItem_def
  setTextAlignment_def setItem_def get_date_def get_source_def get_line_def
  get_part_number_def get_cost_each_def get_quantity_def get_remarks_def
  setColumnCount_def setHorizontalHeaderLabels_def setColumnWidth_def horizontalHeader_def
  setSectionResizeMode_def setRowCount_def setEnabled_def OrderLineSet_def
  set_property_set_def get_number_elements_def iter_elements_def

lemma propagates_return_io: "propagates lib own (return_io x)"
  by (simp add: propagates_def)

lemma propagates_raise_io: "own e \<Longrightarrow> propagates lib own (raise_io e)"
  by (simp add: propagates_def)

lemma propagates_invoke: "propagates lib own (invoke lib c v)"
  by (simp add: propagates_def result_invoke split: option.splits)

lemma propagates_bind_io:
  assumes m: "propagates lib own m"
    and f: "\<And>x. result m = Inr x \<Longrightarrow> propagates lib own (f x)"
  shows "propagates lib own (bind_io m f)"
proof (cases "result m")
  case (Inl e)
  with m show ?thesis
    by (simp add: propagates_def result_bind_io trace_bind_io)
next
  case (Inr x)
  with m have tm: "\<forall>c \<in> set (trace m). lib c = None"
    by (simp add: propagates_def)
  from f [OF Inr] have fx: "propagates lib own (f x)" .
  show ?thesis
  proof (cases "trace (f x) = []")
    case True
    with fx tm Inr show ?thesis
      by (auto simp: propagates_def result_bind_io trace_bind_io
          split: sum.splits dest: in_set_butlastD)
  next
    case False
    with fx tm Inr show ?thesis
      by (auto simp: propagates_def result_bind_io trace_bind_io butlast_append
          split: sum.splits)
  qed
qed

lemma propagates_for_each:
  assumes "\<And>x s. propagates lib own (body x s)"
  shows "propagates lib own (for_each xs body s)"
  by (induction xs arbitrary: s) (auto intro: propagates_return_io propagates_bind_io assms)

lemma propagates_form_attr: "propagates lib (form_missing dlg) (form_attr dlg name)"
  by (cases "form dlg")
     (auto simp: form_attr_def form_missing_def intro: propagates_return_io propagates_raise_io)

section \<open>\<open>set_table_header\<close>\<close>

lemma result_for_each_setColumnWidth:
  "result (for_each xs (\<lambda>i table. setColumnWidth lib i (w i) table) table) = Inr table' \<Longrightarrow>
   table' = table\<lparr>column_width :=
      (\<lambda>i. if i \<in> set xs then Some (w i) else column_width table i)\<rparr>"
proof (induction xs arbitrary: table)
  case Nil
  then show ?case by (cases table) (auto simp: fun_eq_iff)
next
  case (Cons x xs)
  from Cons.prems obtain t1 where t1: "result (setColumnWidth lib x (w x) table) = Inr t1"
    and rest: "result (for_each xs (\<lambda>i table. setColumnWidth lib i (w i) table) t1) = Inr table'"
    by (auto simp: result_bind_io_Inr)
  from t1 have "t1 = table\<lparr>column_width := (column_width table)(x \<mapsto> w x)\<rparr>"
    by (simp add: setColumnWidth_def)
  with Cons.IH [OF rest] show ?case
    by (auto simp: fun_eq_iff intro!: qtable.equality)
qed

lemma result_for_each_setColumnWidth_no_raise:
  "\<exists>table'. result (for_each xs (\<lambda>i table. setColumnWidth no_raise i (w i) table) table) = Inr table'"
  by (induction xs arbitrary: table) (simp_all add: result_bind_io setColumnWidth_def)


lemma result_set_table_header:
  assumes "result (set_table_header lib table col_names col_widths stretch_column) = Inr table'"
  shows "table' = table
     \<lparr>column_count := length col_names,
      horizontal_header_labels := col_names,
      column_width := (\<lambda>i. if i < length col_widths then Some (col_widths ! i)
                            else column_width table i),
      section_resize_mode := (case stretch_column of None \<Rightarrow> section_resize_mode table
                              | Some c \<Rightarrow> (section_resize_mode table)(c \<mapsto> Stretch))\<rparr>"
proof -
  from assms obtain t1 t2 t3 where
    t1: "result (setColumnCount lib (length col_names) table) = Inr t1" and
    t2: "result (setHorizontalHeaderLabels lib col_names t1) = Inr t2" and
    t3: "result (for_each [0..<length col_widths]
                (\<lambda>i table. setColumnWidth lib i (col_widths ! i) table) t2) = Inr t3" and
    t4: "result (case stretch_column of
       None \<Rightarrow> return_io t3
     | Some c \<Rightarrow>
         bind_io (horizontalHeader lib t3) (\<lambda>header.
         setSectionResizeMode lib c Stretch t3)) = Inr table'"
    unfolding set_table_header_def result_bind_io_Inr by blast
  from t1 have 1: "t1 = table\<lparr>column_count := length col_names\<rparr>"
    by (simp add: setColumnCount_def)
  from t2 have 2: "t2 = t1\<lparr>horizontal_header_labels := col_names\<rparr>"
    by (simp add: setHorizontalHeaderLabels_def)
  note 3 = result_for_each_setColumnWidth [OF t3]
  from t4 have 4: "table' = t3\<lparr>section_resize_mode := (case stretch_column of None \<Rightarrow> section_resize_mode t3
                              | Some c \<Rightarrow> (section_resize_mode t3)(c \<mapsto> Stretch))\<rparr>"
    by (cases stretch_column)
       (auto simp: result_bind_io_Inr horizontalHeader_def setSectionResizeMode_def)
  show ?thesis
    unfolding 4 3 2 1 by (auto intro!: qtable.equality simp: fun_eq_iff split: option.splits)
qed

lemma set_table_header_no_raise:
  "\<exists>table'. result (set_table_header no_raise table col_names col_widths stretch_column) = Inr table'"
proof -
  obtain t3 where "result (for_each [0..<length col_widths]
     (\<lambda>i table. setColumnWidth no_raise i (col_widths ! i) table)
     (table\<lparr>column_count := length col_names, horizontal_header_labels := col_names\<rparr>)) = Inr t3"
    using result_for_each_setColumnWidth_no_raise by blast
  then show ?thesis
    by (cases stretch_column)
       (simp_all add: set_table_header_def result_bind_io setColumnCount_def
          setHorizontalHeaderLabels_def horizontalHeader_def setSectionResizeMode_def)
qed


lemma propagates_set_table_header:
  "propagates lib own (set_table_header lib table col_names col_widths stretch_column)"
  unfolding set_table_header_def library_defs
  by (intro propagates_bind_io propagates_invoke propagates_for_each)
     (auto split: option.splits intro!: propagates_bind_io propagates_invoke propagates_return_io)

text \<open>
  C3: for every table, list of column names, list of widths and stretch column,
  \<open>set_table_header\<close> returns when the library does not raise, and whenever it returns the
  column count of the table is the length of \<open>col_names\<close> and the header labels are
  \<open>col_names\<close>, so the column count is the number of header labels.
\<close>

theorem set_table_header_columns:
  "(\<exists>table'. result (set_table_header no_raise table col_names col_widths stretch_column) =
       Inr table') \<and>
   (\<forall>lib table'.
      result (set_table_header lib table col_names col_widths stretch_column) = Inr table' \<longrightarrow>
      column_count table' = length col_names \<and>
      horizontal_header_labels table' = col_names \<and>
      column_count table' = length (horizontal_header_labels table'))"
proof (intro conjI allI impI)
  show "\<exists>table'. result (set_table_header no_raise table col_names col_widths stretch_column) =
       Inr table'"
    by (rule set_table_header_no_raise)
next
  fix lib table'
  assume "result (set_table_header lib table col_names col_widths stretch_column) = Inr table'"
  note eq = result_set_table_header [OF this]
  show "column_count table' = length col_names" by (simp add: eq)
  show "horizontal_header_labels table' = col_names" by (simp add: eq)
  show "column_count table' = length (horizontal_header_labels table')" by (simp add: eq)
qed

theorem set_table_header_columns_witness:
  "\<exists>table'.
     result (set_table_header no_raise blank_table PART_ORDER_COL_NAMES PART_ORDER_COL_WIDTHS
       (Some 7)) = Inr table' \<and>
     column_count table' = 8 \<and>
     horizontal_header_labels table' = PART_ORDER_COL_NAMES"
proof -
  note inst = set_table_header_columns
    [of blank_table PART_ORDER_COL_NAMES PART_ORDER_COL_WIDTHS "Some 7"]
  from inst obtain t where t: "result (set_table_header no_raise blank_table
      PART_ORDER_COL_NAMES PART_ORDER_COL_WIDTHS (Some 7)) = Inr t"
    by blast
  with inst have "column_count t = length PART_ORDER_COL_NAMES \<and>
      horizontal_header_labels t = PART_ORDER_COL_NAMES"
    by blast
  with t show ?thesis
    by (auto simp: PART_ORDER_COL_NAMES_def)
qed



section \<open>\<open>save_buttons_enable\<close>\<close>

lemma result_save_buttons_enable:
  assumes "form dlg = Some f"
    and "result (save_buttons_enable lib dlg enable) = Inr dlg'"
  shows "dlg' = dlg\<lparr>form := Some (f\<lparr>save_new_button := (save_new_button f)\<lparr>enabled := enable\<rparr>,
                                     save_done_button := (save_done_button f)\<lparr>enabled := enable\<rparr>\<rparr>)\<rparr>"
  using assms
  by (auto simp: save_buttons_enable_def form_attr_def result_bind_io_Inr setEnabled_def Let_def)

lemma save_buttons_enable_no_raise:
  assumes "form dlg = Some f"
  shows "\<exists>dlg'. result (save_buttons_enable no_raise dlg enable) = Inr dlg'"
  using assms
  by (simp add: save_buttons_enable_def form_attr_def result_bind_io setEnabled_def Let_def)

lemma propagates_save_buttons_enable:
  "propagates lib (form_missing dlg) (save_buttons_enable lib dlg enable)"
  unfolding save_buttons_enable_def library_defs Let_def
  by (intro propagates_bind_io propagates_invoke propagates_form_attr propagates_return_io)

text \<open>
  C7: for a dialog that has its form and every boolean \<open>enable\<close>,
  \<open>save_buttons_enable\<close> returns when the library does not raise, and whenever it returns both
  \<open>save_new_button\<close> and \<open>save_done_button\<close> of the form have the enabled state \<open>enable\<close>:
  both are enabled if and only if \<open>enable\<close> is true. The table and the data file are as before.
\<close>

theorem save_buttons_enable_both:
  assumes "form dlg = Some f"
  shows "(\<exists>dlg'. result (save_buttons_enable no_raise dlg enable) = Inr dlg') \<and>
     (\<forall>lib dlg'. result (save_buttons_enable lib dlg enable) = Inr dlg' \<longrightarrow>
        (\<exists>f'. form dlg' = Some f' \<and>
           enabled (save_new_button f') = enable \<and>
           enabled (save_done_button f') = enable \<and>
           (enabled (save_new_button f') \<and> enabled (save_done_button f') \<longleftrightarrow> enable) \<and>
           order_table f' = order_table f \<and>
           datafile dlg' = datafile dlg))"
proof (intro conjI allI impI)
  show "\<exists>dlg'. result (save_buttons_enable no_raise dlg enable) = Inr dlg'"
    using assms by (rule save_buttons_enable_no_raise)
next
  fix lib dlg'
  assume "result (save_buttons_enable lib dlg enable) = Inr dlg'"
  note eq = result_save_buttons_enable [OF assms this]
  show "\<exists>f'. form dlg' = Some f' \<and>
           enabled (save_new_button f') = enable \<and>
           enabled (save_done_button f') = enable \<and>
           (enabled (save_new_button f') \<and> enabled (save_done_button f') \<longleftrightarrow> enable) \<and>
           order_table f' = order_table f \<and>
           datafile dlg' = datafile dlg"
    by (simp add: eq)
qed

theorem save_buttons_enable_both_witness:
  "\<exists>dlg' f'. result (save_buttons_enable no_raise sample_dialog True) = Inr dlg' \<and>
     form dlg' = Some f' \<and> enabled (save_new_button f') \<and> enabled (save_done_button f')"
proof -
  have f: "form sample_dialog = Some sample_form"
    by (simp add: sample_dialog_def)
  note inst = save_buttons_enable_both [OF f, of True]
  from inst obtain d where d: "result (save_buttons_enable no_raise sample_dialog True) = Inr d"
    by blast
  with inst obtain f' where "form d = Some f'" "enabled (save_new_button f') = True"
    "enabled (save_done_button f') = True"
    by blast
  with d show ?thesis by auto
qed

section \<open>\<open>fill_order_table_fields\<close>\<close>

subsection \<open>The formatted cost\<close>







subsection \<open>One pass of the loop body, and the loop\<close>









lemma propagates_fill_row: "propagates lib own (fill_row lib dlg ol s)"
  unfolding fill_row_def library_defs split_def
  by (intro propagates_bind_io propagates_invoke propagates_return_io)

subsection \<open>The whole method\<close>






lemma propagates_fill_order_table_fields:
  "propagates lib (form_missing dlg) (fill_order_table_fields lib dlg part_no)"
  unfolding fill_order_table_fields_def Let_def split_def
  apply (intro propagates_bind_io propagates_form_attr propagates_return_io
      propagates_for_each propagates_fill_row)
  apply (auto simp: library_defs intro!: propagates_invoke propagates_return_io)
  done










section \<open>Exceptions\<close>

text \<open>
  C5: no method of \<open>BaseDialog\<close> catches or changes an exception. For every behaviour
  of the library and every input, in \<open>get_parts_file\<close>, \<open>set_table_header\<close>,
  \<open>save_buttons_enable\<close> and \<open>fill_order_table_fields\<close>: when a call into the library raises,
  no further call is made and the method raises that same exception; when the method
  returns, no call raised. The only exception that is not the library's is the
  \<open>AttributeError\<close> of reading \<open>self.form\<close> while it is \<open>None\<close>.
\<close>

theorem library_exceptions_propagate:
  "propagates lib (\<lambda>e. False) (get_parts_file lib dlg) \<and>
   propagates lib (\<lambda>e. False) (set_table_header lib table col_names col_widths stretch_column) \<and>
   propagates lib (form_missing dlg) (save_buttons_enable lib dlg enable) \<and>
   propagates lib (form_missing dlg) (fill_order_table_fields lib dlg part_no)"
proof (intro conjI)
  show "propagates lib (\<lambda>e. False) (get_parts_file lib dlg)"
    by (simp add: get_parts_file_def get_datafile_def propagates_invoke)
  show "propagates lib (\<lambda>e. False)
      (set_table_header lib table col_names col_widths stretch_column)"
    by (rule propagates_set_table_header)
  show "propagates lib (form_missing dlg) (save_buttons_enable lib dlg enable)"
    by (rule propagates_save_buttons_enable)
  show "propagates lib (form_missing dlg) (fill_order_table_fields lib dlg part_no)"
    by (rule propagates_fill_order_table_fields)
qed

theorem library_exceptions_propagate_witness:
  "last (trace (fill_order_table_fields locked_library sample_dialog ''P1'')) =
     Order_init ''21-002'' \<and>
   result (fill_order_table_fields locked_library sample_dialog ''P1'') =
     Inl (LibraryError ''database is locked'')"
proof -
  let ?m = "fill_order_table_fields locked_library sample_dialog ''P1''"
  have last: "last (trace ?m) = Order_init ''21-002''"
    by (simp add: fill_order_table_fields_def fill_row_def library_defs form_attr_def
        sample_dialog_def sample_form_def sample_file_def sample_line_1_def sample_line_2_def
        locked_library_def trace_bind_io result_bind_io result_invoke Let_def)
  have nonempty: "trace ?m \<noteq> []"
    by (simp add: fill_order_table_fields_def library_defs trace_bind_io result_bind_io
        result_invoke locked_library_def)
  have raised: "locked_library (last (trace ?m)) = Some (LibraryError ''database is locked'')"
    by (subst last) (simp add: locked_library_def)
  have form: "\<not> form_missing sample_dialog e" for e
    by (simp add: form_missing_def sample_dialog_def)
  from library_exceptions_propagate [of locked_library sample_dialog _ _ _ _ _ "''P1''"]
  have "propagates locked_library (form_missing sample_dialog) ?m"
    by blast
  with raised nonempty form have "result ?m = Inl (LibraryError ''database is locked'')"
    by (cases "result ?m") (auto simp: propagates_def dest: last_in_set)
  with last show ?thesis by simp
qed

section \<open>The constants and the alias\<close>

text \<open>
  C6: \<open>PART_ORDER_COL_NAMES\<close> is the list Order, Date, Source, Line, Part Number, Cost Each,
  Quantity, Remarks, in that order, and \<open>PART_ORDER_COL_WIDTHS\<close> has the same length, 8.
\<close>

theorem part_order_columns:
  "PART_ORDER_COL_NAMES =
     [''Order'', ''Date'', ''Source'', ''Line'', ''Part Number'', ''Cost Each'', ''Quantity'',
      ''Remarks''] \<and>
   length PART_ORDER_COL_NAMES = 8 \<and>
   length PART_ORDER_COL_WIDTHS = 8 \<and>
   length PART_ORDER_COL_WIDTHS = length PART_ORDER_COL_NAMES"
  by (simp add: PART_ORDER_COL_NAMES_def PART_ORDER_COL_WIDTHS_def)

text \<open>
  C9: \<open>get_parts_file\<close> is \<open>get_datafile\<close>: for every dialog and every behaviour of the
  library, the same value or exception and the same calls.
\<close>

theorem get_parts_file_alias:
  "get_parts_file lib dlg = get_datafile lib dlg \<and>
   result (get_parts_file lib dlg) = result (get_datafile lib dlg) \<and>
   trace (get_parts_file lib dlg) = trace (get_datafile lib dlg)"
  by (simp add: get_parts_file_def)

end
